theory Spec2Isabelle
  imports Complex_Main "HOL-Library.Product_Lexorder"
begin

section \<open>Data model\<close>

text \<open>
  The repository is a collection of stand-alone C++ programs, each a variant of one
  image-analysis pipeline built on OpenCV: \<^verbatim>\<open>c++.cpp\<close>, \<^verbatim>\<open>original-thread.cpp\<close>,
  \<^verbatim>\<open>Tbb.cpp\<close>, \<^verbatim>\<open>speed.cpp\<close>, \<^verbatim>\<open>ypc.cpp\<close>, \<^verbatim>\<open>canny_t.cpp\<close> and others. Functions
  of the same name differ between the files; a definition below says which file it
  embeds, and carries a suffix when its name is taken already.

  Conventions of the embedding:
  \<^item> \<^verbatim>\<open>cv::Point\<close> is a pair of integers, a contour (\<^verbatim>\<open>vector<Point>\<close>) a list of points;
  \<^item> a \<^verbatim>\<open>double\<close> is a real number: rounding is not modelled, so every statement
    below is one of exact arithmetic;
  \<^item> a division is a step that can go wrong: the quotient by zero is no real number
    (IEEE arithmetic gives an infinity or a NaN, the C++ standard leaves it
    undefined), so it is an error value, and every divisor is recorded;
  \<^item> a local variable declared without an initialiser holds an unspecified content,
    which is an explicit input of the model.
\<close>

type_synonym Point = "int \<times> int"

type_synonym contour = "Point list"

text \<open>
  The OpenCV primitives the metrics code calls. They are not part of the repository, so
  the metrics functions take them as a parameter; \<open>arcLength\<close> is the call with
  \<^verbatim>\<open>closed = true\<close>, the only one the sources make.
\<close>

record imgproc =
  contourArea :: "contour \<Rightarrow> real"
  arcLength :: "contour \<Rightarrow> real"
  convexHull :: "contour \<Rightarrow> contour"

subsection \<open>Selecting the largest contour\<close>

text \<open>
  \<^verbatim>\<open>std::max_element(first, last, comp)\<close>: the iterator to the first greatest element,
  \<^verbatim>\<open>last\<close> for an empty range (here \<open>None\<close>). The standard's loop keeps the candidate
  \<^verbatim>\<open>largest\<close> and replaces it by \<^verbatim>\<open>*first\<close> whenever \<^verbatim>\<open>comp(*largest, *first)\<close>.
\<close>

fun max_element_from :: "('a \<Rightarrow> 'a \<Rightarrow> bool) \<Rightarrow> 'a \<Rightarrow> 'a list \<Rightarrow> 'a" where
  "max_element_from cmp largest [] = largest"
| "max_element_from cmp largest (x # xs) =
     max_element_from cmp (if cmp largest x then x else largest) xs"

definition max_element :: "('a \<Rightarrow> 'a \<Rightarrow> bool) \<Rightarrow> 'a list \<Rightarrow> 'a option" where
  "max_element cmp xs =
     (case xs of [] \<Rightarrow> None | x # rest \<Rightarrow> Some (max_element_from cmp x rest))"

text \<open>
  The selection every variant performs (\<^verbatim>\<open>c++.cpp\<close> lines 35-36, \<^verbatim>\<open>ypc.cpp\<close> lines
  158-161, \<^verbatim>\<open>speed.cpp\<close> lines 101-104):
  \<^verbatim>\<open>max_element(contours.begin(), contours.end(),
      [](c1, c2) { return contourArea(c1) < contourArea(c2); })\<close>.
\<close>

definition largest_contour :: "imgproc \<Rightarrow> contour list \<Rightarrow> contour option" where
  "largest_contour P contours =
     max_element (\<lambda>c1 c2. contourArea P c1 < contourArea P c2) contours"

subsection \<open>Arithmetic with recorded divisions\<close>

text \<open>
  A computation on doubles either ends in a value or goes wrong, and it leaves the
  list of the divisors it divided by, in program order.
  \<^item> \<open>DivisionByZero\<close>: a quotient by zero;
  \<^item> \<open>SqrtOfNegative\<close>: \<^verbatim>\<open>sqrt\<close> of a negative number (a NaN);
  \<^item> \<open>DerefEnd\<close>: dereferencing the \<^verbatim>\<open>end()\<close> iterator.
\<close>

datatype fault = DivisionByZero | SqrtOfNegative | DerefEnd

type_synonym 'a traced = "(fault + 'a) \<times> real list"

definition ret :: "'a \<Rightarrow> 'a traced" where
  "ret x = (Inr x, [])"

definition failed :: "fault \<Rightarrow> 'a traced" where
  "failed e = (Inl e, [])"

definition fdiv :: "real \<Rightarrow> real \<Rightarrow> real traced" where
  "fdiv x y = (if y = 0 then Inl DivisionByZero else Inr (x / y), [y])"

definition fsqrt :: "real \<Rightarrow> real traced" where
  "fsqrt x = (if x < 0 then failed SqrtOfNegative else ret (sqrt x))"

definition and_then :: "'a traced \<Rightarrow> ('a \<Rightarrow> 'b traced) \<Rightarrow> 'b traced" where
  "and_then m f =
     (case m of
        (Inl e, ds) \<Rightarrow> (Inl e, ds)
      | (Inr x, ds) \<Rightarrow> (case f x of (r, ds') \<Rightarrow> (r, ds @ ds')))"

definition outcome :: "'a traced \<Rightarrow> fault + 'a" where
  "outcome m = fst m"

definition divisors :: "'a traced \<Rightarrow> real list" where
  "divisors m = snd m"

text \<open>
  An object that was default-initialised and never assigned: \<^verbatim>\<open>ContourMetrics results;\<close>
  for a struct without member initialisers leaves its double members with unspecified
  contents.
\<close>

datatype 'a var = Indeterminate | Value 'a

section \<open>The metrics computation\<close>

subsection \<open>\<^verbatim>\<open>c++.cpp\<close>\<close>

text \<open>
  \<^verbatim>\<open>struct ContourMetrics\<close> of \<^verbatim>\<open>c++.cpp\<close> (lines 21-28): six doubles, each with the
  member initialiser \<^verbatim>\<open>= 0\<close>, so that \<^verbatim>\<open>ContourMetrics()\<close> is \<open>ContourMetrics0\<close>. The
  struct of \<^verbatim>\<open>original-thread.cpp\<close> (lines 27-34) has the same six members and no
  initialisers; its \<^verbatim>\<open>ContourMetrics()\<close> is value-initialised, which zeroes them too.
\<close>

record ContourMetrics =
  area_original :: real
  area_hull :: real
  area_ratio :: real
  circularity_original :: real
  circularity_hull :: real
  circularity_ratio :: real

definition ContourMetrics0 :: ContourMetrics where
  "ContourMetrics0 =
     \<lparr>area_original = 0, area_hull = 0, area_ratio = 0,
      circularity_original = 0, circularity_hull = 0, circularity_ratio = 0\<rparr>"

text \<open>
  \<^verbatim>\<open>calculate_contour_metrics\<close> of \<^verbatim>\<open>c++.cpp\<close> (lines 30-68). A local variable
  that shares its name with a member of the struct carries a prime, and the source's
  \<^verbatim>\<open>hull\<close> is \<open>hull'\<close> (the member: \<open>hull_points\<close>), since \<^verbatim>\<open>hull\<close> is notation of HOL.
  The branch \<open>DerefEnd\<close> stands for \<^verbatim>\<open>*max_element(...)\<close> on an empty range, which the
  test before it excludes.
\<close>

definition calculate_contour_metrics :: "imgproc \<Rightarrow> contour list \<Rightarrow> ContourMetrics traced" where
  "calculate_contour_metrics P contours =
     (if contours = [] then ret ContourMetrics0
      else case largest_contour P contours of
        None \<Rightarrow> failed DerefEnd
      | Some cnt \<Rightarrow>
          let area_original' = contourArea P cnt;
              perimeter_original = arcLength P cnt
          in if area_original' \<le> 0.000001 \<or> perimeter_original \<le> 0.000001
             then ret ContourMetrics0
             else
               and_then (fdiv (4 * pi * area_original') (perimeter_original * perimeter_original))
                 (\<lambda>circularity_original'.
               let hull' = convexHull P cnt;
                   area_hull' = contourArea P hull';
                   perimeter_hull = arcLength P hull'
               in if area_hull' \<le> 0.000001 \<or> perimeter_hull \<le> 0.000001
                  then ret ContourMetrics0
                  else
                    and_then (fdiv (4 * pi * area_hull') (perimeter_hull * perimeter_hull))
                      (\<lambda>circularity_hull'.
                    and_then (fdiv area_hull' area_original')
                      (\<lambda>area_ratio'.
                    and_then (fdiv circularity_hull' circularity_original')
                      (\<lambda>circularity_ratio'.
                    ret \<lparr>area_original = area_original', area_hull = area_hull',
                         area_ratio = area_ratio',
                         circularity_original = circularity_original',
                         circularity_hull = circularity_hull',
                         circularity_ratio = circularity_ratio'\<rparr>)))))"

subsection \<open>\<^verbatim>\<open>original-thread.cpp\<close>\<close>

text \<open>
  \<^verbatim>\<open>calculate_contour_metrics\<close> of \<^verbatim>\<open>original-thread.cpp\<close> (lines 36-76): the same
  guards, with the circularity \<^verbatim>\<open>2 * sqrt(M_PI * area) / perimeter\<close>. The \<^verbatim>\<open>printf\<close>
  calls are not modelled.
\<close>

definition calculate_contour_metrics_thread ::
    "imgproc \<Rightarrow> contour list \<Rightarrow> ContourMetrics traced" where
  "calculate_contour_metrics_thread P contours =
     (if contours = [] then ret ContourMetrics0
      else case largest_contour P contours of
        None \<Rightarrow> failed DerefEnd
      | Some cnt \<Rightarrow>
          let area_original' = contourArea P cnt;
              perimeter_original = arcLength P cnt
          in if area_original' \<le> 0.000001 \<or> perimeter_original \<le> 0.000001
             then ret ContourMetrics0
             else
               and_then (fsqrt (pi * area_original')) (\<lambda>root_original.
               and_then (fdiv (2 * root_original) perimeter_original)
                 (\<lambda>circularity_original'.
               let hull' = convexHull P cnt;
                   area_hull' = contourArea P hull';
                   perimeter_hull = arcLength P hull'
               in if area_hull' \<le> 0.000001 \<or> perimeter_hull \<le> 0.000001
                  then ret ContourMetrics0
                  else
                    and_then (fsqrt (pi * area_hull')) (\<lambda>root_hull.
                    and_then (fdiv (2 * root_hull) perimeter_hull)
                      (\<lambda>circularity_hull'.
                    and_then (fdiv area_hull' area_original')
                      (\<lambda>area_ratio'.
                    and_then (fdiv circularity_hull' circularity_original')
                      (\<lambda>circularity_ratio'.
                    ret \<lparr>area_original = area_original', area_hull = area_hull',
                         area_ratio = area_ratio',
                         circularity_original = circularity_original',
                         circularity_hull = circularity_hull',
                         circularity_ratio = circularity_ratio'\<rparr>)))))))"

subsection \<open>\<^verbatim>\<open>Tbb.cpp\<close> and \<^verbatim>\<open>speed.cpp\<close>\<close>

text \<open>
  The struct of \<^verbatim>\<open>speed.cpp\<close> (lines 19-28) adds the selected contour and its hull to the
  six doubles and has no member initialisers; the struct of \<^verbatim>\<open>Tbb.cpp\<close> (lines 23-33)
  adds \<^verbatim>\<open>long long process_time\<close>, which \<^verbatim>\<open>calculate_contour_metrics\<close> never assigns
  (\<open>Indeterminate\<close>).
\<close>

record ContourMetricsHull = ContourMetrics +
  contour :: contour
  hull_points :: contour

record ContourMetricsTbb = ContourMetricsHull +
  process_time :: "int var"

text \<open>
  \<^verbatim>\<open>calculate_contour_metrics\<close> of \<^verbatim>\<open>Tbb.cpp\<close> (lines 35-62). \<^verbatim>\<open>ContourMetrics results;\<close>
  is default-initialised, and returned as it is for an empty list. No quantity is
  compared with a bound before it is divided by.
\<close>

definition calculate_contour_metrics_tbb ::
    "imgproc \<Rightarrow> contour list \<Rightarrow> ContourMetricsTbb var traced" where
  "calculate_contour_metrics_tbb P contours =
     (if contours = [] then ret Indeterminate
      else case largest_contour P contours of
        None \<Rightarrow> failed DerefEnd
      | Some cnt \<Rightarrow>
          let area_original' = contourArea P cnt;
              perimeter_original = arcLength P cnt
          in and_then (fsqrt (pi * area_original')) (\<lambda>root_original.
             and_then (fdiv (2 * root_original) perimeter_original)
               (\<lambda>circularity_original'.
             let hull' = convexHull P cnt;
                 area_hull' = contourArea P hull';
                 perimeter_hull = arcLength P hull'
             in and_then (fsqrt (pi * area_hull')) (\<lambda>root_hull.
                and_then (fdiv (2 * root_hull) perimeter_hull)
                  (\<lambda>circularity_hull'.
                and_then (fdiv area_hull' area_original')
                  (\<lambda>area_ratio'.
                and_then (fdiv circularity_hull' circularity_original')
                  (\<lambda>circularity_ratio'.
                ret (Value \<lparr>area_original = area_original', area_hull = area_hull',
                       area_ratio = area_ratio',
                       circularity_original = circularity_original',
                       circularity_hull = circularity_hull',
                       circularity_ratio = circularity_ratio',
                       contour = cnt, hull_points = hull',
                       process_time = Indeterminate\<rparr>))))))))"

text \<open>
  \<^verbatim>\<open>calculate_contour_metrics\<close> of \<^verbatim>\<open>speed.cpp\<close> (lines 30-76): each division stands
  under a test that its divisor is positive, with the value 0 otherwise.
\<close>

definition calculate_contour_metrics_speed ::
    "imgproc \<Rightarrow> contour list \<Rightarrow> ContourMetricsHull var traced" where
  "calculate_contour_metrics_speed P contours =
     (if contours = [] then ret Indeterminate
      else case largest_contour P contours of
        None \<Rightarrow> failed DerefEnd
      | Some cnt \<Rightarrow>
          let area_original' = contourArea P cnt;
              perimeter_original = arcLength P cnt
          in and_then
               (if perimeter_original > 0
                then and_then (fsqrt (pi * area_original'))
                       (\<lambda>root_original. fdiv (2 * root_original) perimeter_original)
                else ret 0)
               (\<lambda>circularity_original'.
             let hull' = convexHull P cnt;
                 area_hull' = contourArea P hull';
                 perimeter_hull = arcLength P hull'
             in and_then
                  (if perimeter_hull > 0
                   then and_then (fsqrt (pi * area_hull'))
                          (\<lambda>root_hull. fdiv (2 * root_hull) perimeter_hull)
                   else ret 0)
                  (\<lambda>circularity_hull'.
                and_then
                  (if area_original' > 0 then fdiv area_hull' area_original' else ret 0)
                  (\<lambda>area_ratio'.
                and_then
                  (if circularity_original' > 0
                   then fdiv circularity_hull' circularity_original' else ret 0)
                  (\<lambda>circularity_ratio'.
                ret (Value \<lparr>area_original = area_original', area_hull = area_hull',
                       area_ratio = area_ratio',
                       circularity_original = circularity_original',
                       circularity_hull = circularity_hull',
                       circularity_ratio = circularity_ratio',
                       contour = cnt, hull_points = hull'\<rparr>))))))"

section \<open>The queue and the stages of \<^verbatim>\<open>ypc.cpp\<close>\<close>

text \<open>
  \<^verbatim>\<open>cv::Mat\<close> as the rows of a grayscale image; \<^verbatim>\<open>cv::Mat()\<close>, which is also what
  \<^verbatim>\<open>cv::imread\<close> returns for a file it cannot read, is the image without pixels.
\<close>

type_synonym Mat = "nat list list"

definition Mat_empty :: "Mat \<Rightarrow> bool" where
  "Mat_empty m = (concat m = [])"

record ImageData =
  image :: Mat
  name :: string

text \<open>
  \<^verbatim>\<open>struct ThreadSafeQueue\<close> (\<^verbatim>\<open>ypc.cpp\<close> lines 25-44, the same text in \<^verbatim>\<open>canny_t.cpp\<close>
  lines 20-39): the content of its \<^verbatim>\<open>std::queue\<close>, front first. The mutex and the
  condition variable are not modelled: the model is the queue as one thread at a time
  sees it. \<^verbatim>\<open>cond.wait(lock, pred)\<close> returns only once \<^verbatim>\<open>pred\<close> holds; on an empty
  queue that nobody pushes to any more it never returns, which is \<open>None\<close>. The struct
  has no operation that closes the queue.
\<close>

type_synonym ThreadSafeQueue = "ImageData list"

definition push :: "ImageData \<Rightarrow> ThreadSafeQueue \<Rightarrow> ThreadSafeQueue" where
  "push data queue = queue @ [data]"

definition wait_nonempty :: "ThreadSafeQueue \<Rightarrow> ThreadSafeQueue option" where
  "wait_nonempty queue = (if queue \<noteq> [] then Some queue else None)"

text \<open>
  \<^verbatim>\<open>bool pop(ImageData& data)\<close>: the result is the returned flag, the content of
  \<^verbatim>\<open>data\<close> afterwards and the queue afterwards.
\<close>

definition pop :: "ThreadSafeQueue \<Rightarrow> ImageData \<Rightarrow> (bool \<times> ImageData \<times> ThreadSafeQueue) option" where
  "pop queue data =
     (case wait_nonempty queue of
        None \<Rightarrow> None
      | Some queue' \<Rightarrow>
          (case queue' of
             [] \<Rightarrow> Some (False, data, queue')
           | front # rest \<Rightarrow> Some (True, front, rest)))"

text \<open>
  The producer and the receiver of a test of the queue: \<open>push_all\<close> pushes the items one
  after the other, \<open>pop_times n\<close> calls \<open>pop\<close> \<open>n\<close> times, each call on the \<^verbatim>\<open>data\<close>
  the call before left, and gives the flag and the item of every call and the queue
  that remains; it is \<open>None\<close> when one of the calls never returns.
\<close>

definition push_all :: "ImageData list \<Rightarrow> ThreadSafeQueue \<Rightarrow> ThreadSafeQueue" where
  "push_all items queue = foldl (\<lambda>q data. push data q) queue items"

fun pop_times ::
    "nat \<Rightarrow> ThreadSafeQueue \<Rightarrow> ImageData \<Rightarrow> ((bool \<times> ImageData) list \<times> ThreadSafeQueue) option" where
  "pop_times 0 queue data = Some ([], queue)"
| "pop_times (Suc n) queue data =
     (case pop queue data of
        None \<Rightarrow> None
      | Some (ok, data', queue') \<Rightarrow>
          (case pop_times n queue' data' of
             None \<Rightarrow> None
           | Some (popped, queue'') \<Rightarrow> Some ((ok, data') # popped, queue'')))"

text \<open>The end-of-stream marker the stages push: \<^verbatim>\<open>{cv::Mat(), ""}\<close>.\<close>

definition Sentinel :: ImageData where
  "Sentinel = \<lparr>image = [], name = ''''\<rparr>"

text \<open>
  \<^verbatim>\<open>fs::path(path).filename().string()\<close>: what follows the last \<^verbatim>\<open>/\<close> of the path.
\<close>

definition filename :: "string \<Rightarrow> string" where
  "filename path = rev (takeWhile (\<lambda>c. c \<noteq> CHR ''/'') (rev path))"

text \<open>
  \<^verbatim>\<open>load_image\<close> (lines 46-48) is \<^verbatim>\<open>cv::imread\<close>; the file system is the parameter
  \<open>disk\<close>, giving for each path the image \<^verbatim>\<open>imread\<close> returns.
\<close>

definition load_image :: "(string \<Rightarrow> Mat) \<Rightarrow> string \<Rightarrow> Mat" where
  "load_image disk image_path = disk image_path"

text \<open>\<^verbatim>\<open>worker_load\<close> (lines 71-77).\<close>

fun worker_load :: "(string \<Rightarrow> Mat) \<Rightarrow> string list \<Rightarrow> ThreadSafeQueue \<Rightarrow> ThreadSafeQueue" where
  "worker_load disk [] output_queue = push Sentinel output_queue"
| "worker_load disk (path # image_paths) output_queue =
     worker_load disk image_paths
       (push \<lparr>image = load_image disk path, name = filename path\<rparr> output_queue)"

lemma pop_shorter:
  "pop queue data = Some (ok, data', queue') \<Longrightarrow> length queue' < length queue"
  by (auto simp: pop_def wait_nonempty_def split: if_splits list.splits)

text \<open>
  \<^verbatim>\<open>worker_process\<close> (lines 79-86); \<open>process_image\<close> (lines 50-61, OpenCV calls only)
  is a parameter. The result is the input queue and the output queue when the worker
  returns, \<open>None\<close> when it waits for ever.
\<close>

function worker_process ::
    "(Mat \<Rightarrow> Mat) \<Rightarrow> ThreadSafeQueue \<Rightarrow> ThreadSafeQueue \<Rightarrow> ImageData \<Rightarrow>
       (ThreadSafeQueue \<times> ThreadSafeQueue) option" where
  "worker_process process_image input_queue output_queue data =
     (case pop input_queue data of
        None \<Rightarrow> None
      | Some (ok, data', input_queue') \<Rightarrow>
          if ok \<and> \<not> Mat_empty (image data')
          then worker_process process_image input_queue'
                 (push \<lparr>image = process_image (image data'), name = name data'\<rparr> output_queue)
                 data'
          else Some (input_queue', push Sentinel output_queue))"
  by pat_completeness auto
termination
  by (relation "measure (\<lambda>(p, input_queue, output_queue, data). length input_queue)")
     (auto dest: pop_shorter)

section \<open>The workers and their aggregates\<close>

text \<open>
  What the environment gives for one image file: the name of the file, the image
  \<^verbatim>\<open>imread\<close> returns for it, the contours \<^verbatim>\<open>findContours\<close> leaves in \<^verbatim>\<open>contours\<close>, the
  time the clock measures for its processing, and the unspecified content of the
  worker's time variable, declared without an initialiser, in the iteration that
  handles the file. \<^verbatim>\<open>c++.cpp\<close> and \<^verbatim>\<open>original-thread.cpp\<close> never test the image; only
  \<^verbatim>\<open>speed.cpp\<close> reads \<open>pixels\<close>.
\<close>

record frame_obs =
  file_name :: string
  pixels :: Mat
  found :: "contour list"
  elapsed :: real
  stale :: real

text \<open>
  A frame for the scenarios: a readable image named \<open>n\<close>, in which one contour (a
  triangle) is found, whose processing takes the time \<open>t\<close>.
\<close>

definition scenario_frame :: "string \<Rightarrow> real \<Rightarrow> frame_obs" where
  "scenario_frame n t =
     \<lparr>file_name = n, pixels = [[255]], found = [[(0,0),(4,0),(0,4)]], elapsed = t, stale = 0\<rparr>"

subsection \<open>The worker of \<^verbatim>\<open>c++.cpp\<close>\<close>

text \<open>
  \<^verbatim>\<open>process_single_image\<close> (lines 70-101). Its output parameters \<^verbatim>\<open>contours\<close>,
  \<^verbatim>\<open>metrics\<close> and \<^verbatim>\<open>duration\<close> are passed in and returned.
\<close>

definition process_single_image ::
    "imgproc \<Rightarrow> frame_obs \<Rightarrow> contour list \<times> (fault + ContourMetrics) \<times> real \<Rightarrow>
       contour list \<times> (fault + ContourMetrics) \<times> real" where
  "process_single_image P f outs =
     (case outs of (contours, metrics, duration) \<Rightarrow>
        let contours' = found f
        in if contours' = [] then (contours', metrics, duration)
           else (contours', outcome (calculate_contour_metrics P contours'), elapsed f))"

text \<open>
  The shared counters of \<^verbatim>\<open>run_experiment\<close> (lines 109-111): \<^verbatim>\<open>atomic<double>
  average_time(0)\<close>, \<^verbatim>\<open>atomic<int> number(0)\<close>, \<^verbatim>\<open>atomic<double> max_process_time(0)\<close>.
  The counter is an unbounded integer here.
\<close>

record aggregates =
  average_time :: real
  number :: int
  max_process_time :: real

text \<open>
  One turn of the worker's loop for a path it popped (lines 125-135): the locals
  \<^verbatim>\<open>contours\<close> (empty), \<^verbatim>\<open>metrics\<close> (its member initialisers) and \<^verbatim>\<open>process_time\<close>
  (no initialiser), the call, and the update under the mutex.
\<close>

definition worker_step :: "imgproc \<Rightarrow> aggregates \<Rightarrow> frame_obs \<Rightarrow> aggregates" where
  "worker_step P agg f =
     (case process_single_image P f ([], Inr ContourMetrics0, stale f) of
        (contours, metrics, process_time') \<Rightarrow>
          agg\<lparr>average_time := average_time agg + process_time',
              max_process_time :=
                (if process_time' > max_process_time agg then process_time'
                 else max_process_time agg),
              number := number agg + 1\<rparr>)"

text \<open>
  \<^verbatim>\<open>run_experiment\<close> (lines 103-153) for the files in the order the single worker task
  pops them: the pair it appends to \<^verbatim>\<open>results\<close>.
\<close>

definition run_experiment :: "imgproc \<Rightarrow> frame_obs list \<Rightarrow> fault + (real \<times> real)" where
  "run_experiment P image_queue =
     (let agg = foldl (worker_step P)
                  \<lparr>average_time = 0, number = 0, max_process_time = 0\<rparr> image_queue
      in case outcome (fdiv (average_time agg) (real_of_int (number agg))) of
           Inl e \<Rightarrow> Inl e
         | Inr average \<Rightarrow> Inr (max_process_time agg, average))"

subsection \<open>The worker of \<^verbatim>\<open>original-thread.cpp\<close>\<close>

text \<open>
  \<^verbatim>\<open>process_image_origin\<close> (lines 78-116): \<^verbatim>\<open>numbersum\<close> is read, the output parameters
  \<^verbatim>\<open>contours\<close>, \<^verbatim>\<open>metrics\<close>, \<^verbatim>\<open>duration\<close> and \<^verbatim>\<open>number\<close> are passed in and returned.
\<close>

definition process_image_origin ::
    "imgproc \<Rightarrow> frame_obs \<Rightarrow> real \<Rightarrow>
       contour list \<times> (fault + ContourMetrics) var \<times> real \<times> real \<Rightarrow>
       contour list \<times> (fault + ContourMetrics) var \<times> real \<times> real" where
  "process_image_origin P f numbersum' outs =
     (case outs of (contours, metrics, duration, number') \<Rightarrow>
        let contours' = found f
        in if contours' = [] then (contours', metrics, duration, number')
           else (contours',
                 Value (outcome (calculate_contour_metrics_thread P contours')),
                 elapsed f, numbersum' + 1))"

text \<open>
  The variables of \<^verbatim>\<open>thread_main\<close> (lines 125-134) that its loop updates; the maximum
  and the name of its image belong to the caller.
\<close>

record thread_state =
  totaltime_c :: real
  max_processing_time :: real
  max_processing_time_image :: string
  numbersum :: real
  number_of_images :: real

text \<open>
  One turn of the loop (lines 141-163); \<open>number_of_images\<close> is the source's \<^verbatim>\<open>number\<close>.
\<close>

definition thread_step :: "imgproc \<Rightarrow> thread_state \<Rightarrow> frame_obs \<Rightarrow> thread_state" where
  "thread_step P st f =
     (case process_image_origin P f (numbersum st)
             ([], Indeterminate, stale f, number_of_images st) of
        (contours, metrics, processtime, number') \<Rightarrow>
          st\<lparr>totaltime_c := totaltime_c st + processtime,
             max_processing_time :=
               (if processtime > max_processing_time st then processtime
                else max_processing_time st),
             max_processing_time_image :=
               (if processtime > max_processing_time st then file_name f
                else max_processing_time_image st),
             numbersum := number',
             number_of_images := number'\<rparr>)"

text \<open>
  \<^verbatim>\<open>thread_main\<close> (lines 125-181) for the files in the order the worker task pops them:
  the three values it hands back to its caller. \<open>image0\<close> is the caller's string
  before the call.
\<close>

record report =
  Average_processtime :: "fault + real"
  max_time :: real
  max_time_image :: string

definition thread_main :: "imgproc \<Rightarrow> string \<Rightarrow> frame_obs list \<Rightarrow> report" where
  "thread_main P image0 image_queue =
     (let st = foldl (thread_step P)
                 \<lparr>totaltime_c = 0, max_processing_time = 0,
                  max_processing_time_image = image0,
                  numbersum = 0, number_of_images = 0\<rparr> image_queue
      in \<lparr>Average_processtime = outcome (fdiv (totaltime_c st) (number_of_images st)),
          max_time = max_processing_time st,
          max_time_image = max_processing_time_image st\<rparr>)"

subsection \<open>The loop of \<^verbatim>\<open>speed.cpp\<close>\<close>

text \<open>
  \<^verbatim>\<open>ContourMetrics()\<close> of \<^verbatim>\<open>speed.cpp\<close>: value-initialised, so the doubles are zero and
  the two vectors empty.
\<close>

definition ContourMetricsHull0 :: ContourMetricsHull where
  "ContourMetricsHull0 =
     \<lparr>area_original = 0, area_hull = 0, area_ratio = 0,
      circularity_original = 0, circularity_hull = 0, circularity_ratio = 0,
      contour = [], hull_points = []\<rparr>"

text \<open>
  \<^verbatim>\<open>process_image\<close> of \<^verbatim>\<open>speed.cpp\<close> (lines 78-113): the lines written to \<^verbatim>\<open>cout\<close> and
  the returned metrics.
\<close>

definition process_image_speed ::
    "imgproc \<Rightarrow> frame_obs \<Rightarrow> string list \<times> ContourMetricsHull var traced" where
  "process_image_speed P f =
     (if Mat_empty (pixels f)
      then ([''Error: Unable to read image: '' @ file_name f], ret (Value ContourMetricsHull0))
      else case largest_contour P (found f) of
        Some max_contour \<Rightarrow> ([], calculate_contour_metrics_speed P [max_contour])
      | None \<Rightarrow> ([], ret (Value ContourMetricsHull0)))"

text \<open>
  \<^verbatim>\<open>process_file\<close> (lines 115-123) and the loop of \<^verbatim>\<open>main\<close> that calls it (lines
  152-154), on the console output and the two vectors.
\<close>

record speed_state =
  cout :: "string list"
  processing_times :: "real list"
  results_list :: "(fault + ContourMetricsHull var) list"

definition process_file :: "imgproc \<Rightarrow> speed_state \<Rightarrow> frame_obs \<Rightarrow> speed_state" where
  "process_file P st f =
     (case process_image_speed P f of
        (printed, results) \<Rightarrow>
          st\<lparr>cout := cout st @ printed,
             processing_times := processing_times st @ [elapsed f],
             results_list := results_list st @ [outcome results]\<rparr>)"

definition process_files :: "imgproc \<Rightarrow> frame_obs list \<Rightarrow> speed_state" where
  "process_files P img_paths =
     foldl (process_file P) \<lparr>cout = [], processing_times = [], results_list = []\<rparr> img_paths"

section \<open>The OpenCV primitives\<close>

text \<open>
  \<^verbatim>\<open>cv::contourArea\<close>, \<^verbatim>\<open>cv::arcLength\<close> and \<^verbatim>\<open>cv::convexHull\<close> belong to OpenCV, not
  to the repository. Where a statement needs their values at a concrete contour, they
  are the functions the spec describes (section 4.5), collected in \<open>cv\<close>.
\<close>

text \<open>
  Modelled from the spec: \<^verbatim>\<open>cv::contourArea\<close>, missing from the sources, is "the polygon
  area of the contour (signed-area/shoelace formula, absolute value)". \<open>closed_edges\<close>
  pairs every point with its successor, the last one with the first; \<open>shoelace2\<close> is
  twice the signed area.
\<close>

definition closed_edges :: "contour \<Rightarrow> (Point \<times> Point) list" where
  "closed_edges c = (case c of [] \<Rightarrow> [] | p # ps \<Rightarrow> zip c (ps @ [p]))"

definition shoelace2 :: "contour \<Rightarrow> int" where
  "shoelace2 c = sum_list (map (\<lambda>((x1, y1), (x2, y2)). x1 * y2 - x2 * y1) (closed_edges c))"

definition cv_contourArea :: "contour \<Rightarrow> real" where
  "cv_contourArea c = \<bar>real_of_int (shoelace2 c)\<bar> / 2"

text \<open>
  Modelled from the spec: \<^verbatim>\<open>cv::arcLength\<close> with \<^verbatim>\<open>closed = true\<close>, missing from the
  sources, is the "sum of consecutive point-to-point Euclidean distances, closed loop".
\<close>

definition cv_arcLength :: "contour \<Rightarrow> real" where
  "cv_arcLength c =
     sum_list (map (\<lambda>((x1, y1), (x2, y2)).
                 sqrt (real_of_int ((x2 - x1) * (x2 - x1) + (y2 - y1) * (y2 - y1))))
               (closed_edges c))"

text \<open>
  Modelled from the spec: \<^verbatim>\<open>cv::convexHull\<close>, missing from the sources, is the "convex
  hull of the contour's point set (Graham-scan or equivalent monotonic-chain
  algorithm, points in consistent winding order)": the monotone chain over the
  distinct points in lexicographic order, the lower chain and then the upper one,
  collinear points dropped.
\<close>

definition cross :: "Point \<Rightarrow> Point \<Rightarrow> Point \<Rightarrow> int" where
  "cross p a b = (fst a - fst p) * (snd b - snd p) - (snd a - snd p) * (fst b - fst p)"

fun hull_push :: "Point list \<Rightarrow> Point \<Rightarrow> Point list" where
  "hull_push (b # a # st) p =
     (if cross a b p \<le> 0 then hull_push (a # st) p else p # b # a # st)"
| "hull_push st p = p # st"

definition half_hull :: "Point list \<Rightarrow> Point list" where
  "half_hull ps = rev (foldl hull_push [] ps)"

definition cv_convexHull :: "contour \<Rightarrow> contour" where
  "cv_convexHull c =
     (let ps = sort (remdups c)
      in if length ps \<le> 2 then ps
         else butlast (half_hull ps) @ butlast (half_hull (rev ps)))"

text \<open>Modelled from the spec: the three primitives above, as one parameter.\<close>

definition cv :: imgproc where
  "cv = \<lparr>contourArea = cv_contourArea, arcLength = cv_arcLength, convexHull = cv_convexHull\<rparr>"


section \<open>Helper lemmas\<close>

subsection \<open>Selection\<close>

lemma max_element_from_mem:
  "max_element_from cmp l xs \<in> set (l # xs)"
  by (induction xs arbitrary: l) auto

lemma max_element_from_ge:
  fixes key :: "'a \<Rightarrow> real"
  shows "key l \<le> key (max_element_from (\<lambda>a b. key a < key b) l xs) \<and>
         (\<forall>x \<in> set xs. key x \<le> key (max_element_from (\<lambda>a b. key a < key b) l xs))"
proof (induction xs arbitrary: l)
  case Nil
  show ?case by simp
next
  case (Cons x xs)
  let ?l' = "if key l < key x then x else l"
  from Cons.IH [of ?l'] have ih:
    "key ?l' \<le> key (max_element_from (\<lambda>a b. key a < key b) ?l' xs)"
    "\<forall>y \<in> set xs. key y \<le> key (max_element_from (\<lambda>a b. key a < key b) ?l' xs)"
    by blast+
  have "key l \<le> key ?l'" "key x \<le> key ?l'" by auto
  with ih show ?case by (auto intro: order_trans)
qed

lemma largest_contour_Nil: "largest_contour P [] = None"
  by (simp add: largest_contour_def max_element_def)

lemma largest_contour_Some: "contours \<noteq> [] \<Longrightarrow> \<exists>cnt. largest_contour P contours = Some cnt"
  by (cases contours) (simp_all add: largest_contour_def max_element_def)

lemma sel_single: "largest_contour P [c] = Some c"
  by (simp add: largest_contour_def max_element_def)

subsection \<open>Recorded divisions\<close>

lemma and_then_ret: "and_then (ret x) f = f x"
  by (simp add: and_then_def ret_def split: prod.splits)

lemma and_then_fdiv:
  "y \<noteq> 0 \<Longrightarrow> and_then (fdiv x y) f = (fst (f (x / y)), y # snd (f (x / y)))"
  by (simp add: and_then_def fdiv_def split: prod.splits)

lemma and_then_fdiv_zero:
  "and_then (fdiv x 0) f = (Inl DivisionByZero, [0])"
  by (simp add: and_then_def fdiv_def)

lemma and_then_fsqrt:
  "0 \<le> x \<Longrightarrow> and_then (fsqrt x) f = f (sqrt x)"
  by (simp add: fsqrt_def and_then_ret)

subsection \<open>The metrics of \<^verbatim>\<open>c++.cpp\<close> and \<^verbatim>\<open>original-thread.cpp\<close>, case by case\<close>

lemma calc_cpp_nondegenerate:
  assumes sel: "largest_contour P contours = Some cnt"
    and a: "0.000001 < contourArea P cnt" and p: "0.000001 < arcLength P cnt"
    and ah: "0.000001 < contourArea P (convexHull P cnt)"
    and ph: "0.000001 < arcLength P (convexHull P cnt)"
  shows "calculate_contour_metrics P contours =
     (Inr \<lparr>area_original = contourArea P cnt,
           area_hull = contourArea P (convexHull P cnt),
           area_ratio = contourArea P (convexHull P cnt) / contourArea P cnt,
           circularity_original = 4 * pi * contourArea P cnt / (arcLength P cnt * arcLength P cnt),
           circularity_hull = 4 * pi * contourArea P (convexHull P cnt)
              / (arcLength P (convexHull P cnt) * arcLength P (convexHull P cnt)),
           circularity_ratio =
             (4 * pi * contourArea P (convexHull P cnt)
                / (arcLength P (convexHull P cnt) * arcLength P (convexHull P cnt)))
             / (4 * pi * contourArea P cnt / (arcLength P cnt * arcLength P cnt))\<rparr>,
      [arcLength P cnt * arcLength P cnt,
       arcLength P (convexHull P cnt) * arcLength P (convexHull P cnt),
       contourArea P cnt,
       4 * pi * contourArea P cnt / (arcLength P cnt * arcLength P cnt)])"
proof -
  have ne: "contours \<noteq> []" using sel by (auto simp: largest_contour_Nil)
  have p0: "arcLength P cnt * arcLength P cnt \<noteq> 0" using p by simp
  have ph0: "arcLength P (convexHull P cnt) * arcLength P (convexHull P cnt) \<noteq> 0" using ph by simp
  have a0: "contourArea P cnt \<noteq> 0" using a by simp
  have c0: "4 * pi * contourArea P cnt / (arcLength P cnt * arcLength P cnt) \<noteq> 0"
    using a p by simp
  show ?thesis
    using ne sel a p ah ph
    by (simp add: calculate_contour_metrics_def Let_def and_then_fdiv [OF p0] and_then_fdiv [OF ph0]
        and_then_fdiv [OF a0] and_then_fdiv [OF c0] ret_def not_le [symmetric])
qed

lemma calc_cpp_degenerate:
  assumes sel: "largest_contour P contours = Some cnt"
    and d: "contourArea P cnt \<le> 0.000001 \<or> arcLength P cnt \<le> 0.000001"
  shows "calculate_contour_metrics P contours = ret ContourMetrics0"
  using sel d by (auto simp: calculate_contour_metrics_def Let_def largest_contour_Nil)

lemma calc_cpp_degenerate_hull:
  assumes sel: "largest_contour P contours = Some cnt"
    and a: "0.000001 < contourArea P cnt" and p: "0.000001 < arcLength P cnt"
    and d: "contourArea P (convexHull P cnt) \<le> 0.000001 \<or> arcLength P (convexHull P cnt) \<le> 0.000001"
  shows "calculate_contour_metrics P contours =
           (Inr ContourMetrics0, [arcLength P cnt * arcLength P cnt])"
proof -
  have ne: "contours \<noteq> []" using sel by (auto simp: largest_contour_Nil)
  have p0: "arcLength P cnt * arcLength P cnt \<noteq> 0" using p by simp
  show ?thesis
    using ne sel a p d
    by (auto simp: calculate_contour_metrics_def Let_def and_then_fdiv [OF p0] ret_def)
qed

lemma calc_cpp_never_faults:
  "\<exists>m. outcome (calculate_contour_metrics P contours) = Inr m"
proof (cases "contours = []")
  case True
  then show ?thesis by (simp add: calculate_contour_metrics_def ret_def outcome_def)
next
  case False
  then obtain cnt where sel: "largest_contour P contours = Some cnt"
    using largest_contour_Some by blast
  show ?thesis
  proof (cases "contourArea P cnt \<le> 0.000001 \<or> arcLength P cnt \<le> 0.000001")
    case True
    then show ?thesis by (simp add: calc_cpp_degenerate [OF sel] ret_def outcome_def)
  next
    case nd: False
    show ?thesis
    proof (cases "contourArea P (convexHull P cnt) \<le> 0.000001 \<or> arcLength P (convexHull P cnt) \<le> 0.000001")
      case True
      with nd show ?thesis by (simp add: calc_cpp_degenerate_hull [OF sel] outcome_def)
    next
      case False
      with nd show ?thesis by (simp add: calc_cpp_nondegenerate [OF sel] outcome_def)
    qed
  qed
qed

lemma calc_cpp_guard:
  assumes sel: "largest_contour P contours = Some cnt"
    and d: "contourArea P cnt \<le> 0.000001 \<or> arcLength P cnt \<le> 0.000001 \<or>
            contourArea P (convexHull P cnt) \<le> 0.000001 \<or>
            arcLength P (convexHull P cnt) \<le> 0.000001"
  shows "outcome (calculate_contour_metrics P contours) = Inr ContourMetrics0 \<and>
         (divisors (calculate_contour_metrics P contours) = [] \<or>
          0.000001 < contourArea P cnt \<and> 0.000001 < arcLength P cnt \<and>
          divisors (calculate_contour_metrics P contours) = [arcLength P cnt * arcLength P cnt])"
proof (cases "contourArea P cnt \<le> 0.000001 \<or> arcLength P cnt \<le> 0.000001")
  case True
  then show ?thesis by (simp add: calc_cpp_degenerate [OF sel] ret_def outcome_def divisors_def)
next
  case False
  with d have "contourArea P (convexHull P cnt) \<le> 0.000001 \<or>
            arcLength P (convexHull P cnt) \<le> 0.000001" by blast
  with False show ?thesis
    by (simp add: calc_cpp_degenerate_hull [OF sel] outcome_def divisors_def)
qed

lemma calc_cpp_divisors_guarded:
  assumes "d \<in> set (divisors (calculate_contour_metrics P contours))"
  shows "0 < d \<and> (\<exists>cnt. largest_contour P contours = Some cnt \<and>
           0.000001 < contourArea P cnt \<and> 0.000001 < arcLength P cnt)"
proof (cases "contours = []")
  case True
  with assms show ?thesis by (simp add: calculate_contour_metrics_def ret_def divisors_def)
next
  case False
  then obtain cnt where sel: "largest_contour P contours = Some cnt"
    using largest_contour_Some by blast
  show ?thesis
  proof (cases "contourArea P cnt \<le> 0.000001 \<or> arcLength P cnt \<le> 0.000001")
    case True
    with assms show ?thesis by (simp add: calc_cpp_degenerate [OF sel] ret_def divisors_def)
  next
    case nd: False
    then have a: "0.000001 < contourArea P cnt" and p: "0.000001 < arcLength P cnt" by simp_all
    have pp: "0 < arcLength P cnt * arcLength P cnt" using p by simp
    have c: "0 < 4 * pi * contourArea P cnt / (arcLength P cnt * arcLength P cnt)"
      using a p by simp
    show ?thesis
    proof (cases "contourArea P (convexHull P cnt) \<le> 0.000001 \<or> arcLength P (convexHull P cnt) \<le> 0.000001")
      case True
      with assms a p pp sel show ?thesis
        by (simp add: calc_cpp_degenerate_hull [OF sel a p] divisors_def)
    next
      case False
      then have ah: "0.000001 < contourArea P (convexHull P cnt)"
        and ph: "0.000001 < arcLength P (convexHull P cnt)" by simp_all
      have "0 < arcLength P (convexHull P cnt) * arcLength P (convexHull P cnt)" using ph by simp
      moreover have "0 < contourArea P cnt" using a by simp
      ultimately show ?thesis
        using assms a p pp c sel
        by (auto simp: calc_cpp_nondegenerate [OF sel a p ah ph] divisors_def)
    qed
  qed
qed

lemma calc_thread_guard:
  assumes sel: "largest_contour P contours = Some cnt"
    and d: "contourArea P cnt \<le> 0.000001 \<or> arcLength P cnt \<le> 0.000001 \<or>
            contourArea P (convexHull P cnt) \<le> 0.000001 \<or>
            arcLength P (convexHull P cnt) \<le> 0.000001"
  shows "outcome (calculate_contour_metrics_thread P contours) = Inr ContourMetrics0 \<and>
         (divisors (calculate_contour_metrics_thread P contours) = [] \<or>
          0.000001 < contourArea P cnt \<and> 0.000001 < arcLength P cnt \<and>
          divisors (calculate_contour_metrics_thread P contours) = [arcLength P cnt])"
proof -
  have ne: "contours \<noteq> []" using sel by (auto simp: largest_contour_Nil)
  show ?thesis
  proof (cases "contourArea P cnt \<le> 0.000001 \<or> arcLength P cnt \<le> 0.000001")
    case True
    then show ?thesis
      using ne sel
      by (auto simp: calculate_contour_metrics_thread_def Let_def ret_def outcome_def divisors_def)
  next
    case False
    then have a: "0.000001 < contourArea P cnt" and p: "0.000001 < arcLength P cnt" by simp_all
    have s0: "0 \<le> pi * contourArea P cnt" using a by simp
    have p0: "arcLength P cnt \<noteq> 0" using p by simp
    from False d have dh: "contourArea P (convexHull P cnt) \<le> 0.000001 \<or>
            arcLength P (convexHull P cnt) \<le> 0.000001" by blast
    show ?thesis
      using ne sel a p dh
      by (auto simp: calculate_contour_metrics_thread_def Let_def and_then_fsqrt [OF s0]
          and_then_fdiv [OF p0] ret_def outcome_def divisors_def)
  qed
qed

subsection \<open>The queue\<close>

lemma pop_eq:
  "pop queue data = (case queue of [] \<Rightarrow> None | front # rest \<Rightarrow> Some (True, front, rest))"
  by (simp add: pop_def wait_nonempty_def split: list.splits)

lemma push_all_eq: "push_all items queue = queue @ items"
  unfolding push_all_def
  by (induction items arbitrary: queue) (simp_all add: push_def)

lemma pop_times_all:
  "pop_times (length items) (items @ rest) data = Some (map (Pair True) items, rest)"
  by (induction items arbitrary: data) (simp_all add: pop_eq)

lemma pop_times_more:
  "pop_times (Suc (length items)) items data = None"
  by (induction items arbitrary: data) (simp_all add: pop_eq)

subsection \<open>The loops of the workers\<close>

lemma process_single_image_none:
  "found f = [] \<Longrightarrow> process_single_image P f (contours, metrics, duration) = ([], metrics, duration)"
  by (simp add: process_single_image_def Let_def)

lemma process_single_image_some:
  "found f \<noteq> [] \<Longrightarrow> process_single_image P f (contours, metrics, duration) =
     (found f, outcome (calculate_contour_metrics P (found f)), elapsed f)"
  by (simp add: process_single_image_def Let_def)

lemma worker_step_eq:
  "worker_step P agg f =
     agg\<lparr>average_time := average_time agg + (if found f = [] then stale f else elapsed f),
         max_process_time := (if (if found f = [] then stale f else elapsed f) > max_process_time agg
             then (if found f = [] then stale f else elapsed f) else max_process_time agg),
         number := number agg + 1\<rparr>"
  by (simp add: worker_step_def process_single_image_def Let_def)

lemma worker_fold_number:
  "number (foldl (worker_step P) agg fs) = number agg + int (length fs)"
  by (induction fs arbitrary: agg) (simp_all add: worker_step_eq)

lemma worker_fold_sum:
  "average_time (foldl (worker_step P) agg fs) =
     average_time agg + (\<Sum>f\<leftarrow>fs. if found f = [] then stale f else elapsed f)"
  by (induction fs arbitrary: agg) (simp_all add: worker_step_eq)

lemma worker_fold_max:
  "max_process_time (foldl (worker_step P) agg fs) =
     Max (insert (max_process_time agg) ((\<lambda>f. if found f = [] then stale f else elapsed f) ` set fs))"
proof (induction fs arbitrary: agg)
  case Nil
  show ?case by simp
next
  case (Cons f fs)
  let ?t = "if found f = [] then stale f else elapsed f"
  let ?S = "(\<lambda>f. if found f = [] then stale f else elapsed f) ` set fs"
  have fin: "finite ?S" by simp
  have "max_process_time (foldl (worker_step P) agg (f # fs)) =
        Max (insert (max_process_time (worker_step P agg f)) ?S)"
    using Cons.IH [of "worker_step P agg f"] by simp
  also have "max_process_time (worker_step P agg f) = max (max_process_time agg) ?t"
    by (simp add: worker_step_eq max_def)
  also have "Max (insert (max (max_process_time agg) ?t) ?S) =
             Max (insert (max_process_time agg) (insert ?t ?S))"
    using fin by (cases "?S = {}") (simp_all add: max.assoc)
  finally show ?case by simp
qed

lemma thread_step_some:
  "found f \<noteq> [] \<Longrightarrow> thread_step P st f =
     st\<lparr>totaltime_c := totaltime_c st + elapsed f,
        max_processing_time := (if elapsed f > max_processing_time st then elapsed f else max_processing_time st),
        max_processing_time_image := (if elapsed f > max_processing_time st then file_name f else max_processing_time_image st),
        numbersum := numbersum st + 1,
        number_of_images := numbersum st + 1\<rparr>"
  by (simp add: thread_step_def process_image_origin_def Let_def)

lemma thread_fold_sum:
  "\<forall>f \<in> set fs. found f \<noteq> [] \<Longrightarrow>
   totaltime_c (foldl (thread_step P) st fs) = totaltime_c st + sum_list (map elapsed fs)"
  by (induction fs arbitrary: st) (simp_all add: thread_step_some)

lemma thread_fold_numbersum:
  "\<forall>f \<in> set fs. found f \<noteq> [] \<Longrightarrow>
   numbersum (foldl (thread_step P) st fs) = numbersum st + real (length fs)"
  by (induction fs arbitrary: st) (simp_all add: thread_step_some)

lemma thread_fold_number:
  "\<forall>f \<in> set fs. found f \<noteq> [] \<Longrightarrow> fs \<noteq> [] \<Longrightarrow>
   number_of_images (foldl (thread_step P) st fs) = numbersum st + real (length fs)"
proof (induction fs arbitrary: st rule: rev_induct)
  case Nil
  then show ?case by simp
next
  case (snoc f fs)
  then have "found f \<noteq> []" "\<forall>f \<in> set fs. found f \<noteq> []" by simp_all
  then show ?case
    by (simp add: thread_step_some thread_fold_numbersum)
qed

lemma thread_fold_max:
  "\<forall>f \<in> set fs. found f \<noteq> [] \<Longrightarrow>
   max_processing_time (foldl (thread_step P) st fs) =
     Max (insert (max_processing_time st) (elapsed ` set fs))"
proof (induction fs arbitrary: st)
  case Nil
  show ?case by simp
next
  case (Cons f fs)
  then have f: "found f \<noteq> []" and fs: "\<forall>f \<in> set fs. found f \<noteq> []" by simp_all
  have fin: "finite (elapsed ` set fs)" by simp
  have "max_processing_time (foldl (thread_step P) st (f # fs)) =
        Max (insert (max_processing_time (thread_step P st f)) (elapsed ` set fs))"
    using Cons.IH [OF fs, of "thread_step P st f"] by simp
  also have "max_processing_time (thread_step P st f) = max (max_processing_time st) (elapsed f)"
    by (simp add: thread_step_some [OF f] max_def)
  also have "Max (insert (max (max_processing_time st) (elapsed f)) (elapsed ` set fs)) =
             Max (insert (max_processing_time st) (insert (elapsed f) (elapsed ` set fs)))"
    using fin by (cases "elapsed ` set fs = {}") (simp_all add: max.assoc)
  finally show ?case by simp
qed

lemma thread_fold_image:
  "\<forall>f \<in> set fs. found f \<noteq> [] \<Longrightarrow>
   (max_processing_time (foldl (thread_step P) st fs) = max_processing_time st \<and>
    max_processing_time_image (foldl (thread_step P) st fs) = max_processing_time_image st) \<or>
   (\<exists>f \<in> set fs. max_processing_time_image (foldl (thread_step P) st fs) = file_name f \<and>
        elapsed f = max_processing_time (foldl (thread_step P) st fs))"
proof (induction fs arbitrary: st)
  case Nil
  show ?case by simp
next
  case (Cons f fs)
  then have f: "found f \<noteq> []" and fs: "\<forall>f \<in> set fs. found f \<noteq> []" by simp_all
  let ?st = "thread_step P st f"
  from Cons.IH [OF fs, of ?st] show ?case
  proof
    assume keep: "max_processing_time (foldl (thread_step P) ?st fs) = max_processing_time ?st \<and>
      max_processing_time_image (foldl (thread_step P) ?st fs) = max_processing_time_image ?st"
    show ?thesis
    proof (cases "elapsed f > max_processing_time st")
      case True
      then have "max_processing_time ?st = elapsed f" "max_processing_time_image ?st = file_name f"
        by (simp_all add: thread_step_some [OF f])
      with keep show ?thesis by simp
    next
      case False
      then have "max_processing_time ?st = max_processing_time st"
        "max_processing_time_image ?st = max_processing_time_image st"
        by (simp_all add: thread_step_some [OF f])
      with keep show ?thesis by simp
    qed
  next
    assume "\<exists>g \<in> set fs. max_processing_time_image (foldl (thread_step P) ?st fs) = file_name g \<and>
        elapsed g = max_processing_time (foldl (thread_step P) ?st fs)"
    then show ?thesis by auto
  qed
qed

lemma report_eqI:
  "Average_processtime r = a \<Longrightarrow> max_time r = m \<Longrightarrow> max_time_image r = i \<Longrightarrow>
   r = \<lparr>Average_processtime = a, max_time = m, max_time_image = i\<rparr>"
  by (cases r) simp

section \<open>Claims\<close>

subsection \<open>C1: the queue between two stages\<close>

text \<open>
  C1, in the form the code satisfies. \<^verbatim>\<open>ThreadSafeQueue\<close> has no \<^verbatim>\<open>close()\<close>: a
  producer ends its stream by pushing the marker \<open>Sentinel\<close>. A call of \<open>pop\<close> never
  returns (\<open>None\<close>) on the empty queue and returns \<^verbatim>\<open>true\<close> with the front item
  otherwise, so it never returns \<^verbatim>\<open>false\<close>. After the items \<open>items\<close> and then the marker
  were pushed on the empty queue, \<open>length items + 1\<close> calls of \<open>pop\<close> return \<^verbatim>\<open>true\<close>:
  they deliver the items in the order pushed, each once, and then the marker, and
  leave the queue empty; one more call never returns.
\<close>

theorem C1_sentinel_protocol:
  "pop queue data = (case queue of [] \<Rightarrow> None | front # rest \<Rightarrow> Some (True, front, rest)) \<and>
   pop_times (Suc (length items)) (push Sentinel (push_all items [])) data =
     Some (map (Pair True) (items @ [Sentinel]), []) \<and>
   pop_times (Suc (Suc (length items))) (push Sentinel (push_all items [])) data = None"
proof (intro conjI)
  show "pop queue data = (case queue of [] \<Rightarrow> None | front # rest \<Rightarrow> Some (True, front, rest))"
    by (rule pop_eq)
  have q: "push Sentinel (push_all items []) = items @ [Sentinel]"
    by (simp add: push_def push_all_eq)
  show "pop_times (Suc (length items)) (push Sentinel (push_all items [])) data =
     Some (map (Pair True) (items @ [Sentinel]), [])"
    using pop_times_all [of "items @ [Sentinel]" "[]" data] by (simp add: q)
  show "pop_times (Suc (Suc (length items))) (push Sentinel (push_all items [])) data = None"
    using pop_times_more [of "items @ [Sentinel]" data] by (simp add: q)
qed

text \<open>
  C1 as stated (N pops with \<^verbatim>\<open>true\<close>, then one with \<^verbatim>\<open>false\<close>) fails already for no
  item at all: after the stream was ended (the marker was pushed), the first \<open>pop\<close>
  returns \<^verbatim>\<open>true\<close> with the marker, not \<^verbatim>\<open>false\<close>; on a queue that holds nothing \<open>pop\<close>
  does not return at all; and after one item and the marker, two calls return \<^verbatim>\<open>true\<close>.
\<close>

theorem C1_counterexample:
  "pop (push Sentinel (push_all [] [])) Sentinel = Some (True, Sentinel, []) \<and>
   pop [] Sentinel = None \<and>
   pop_times 2 (push Sentinel (push_all [\<lparr>image = [[255]], name = ''a.tiff''\<rparr>] [])) Sentinel =
     Some ([(True, \<lparr>image = [[255]], name = ''a.tiff''\<rparr>), (True, Sentinel)], [])"
  by (simp add: pop_def wait_nonempty_def push_def push_all_def numeral_2_eq_2)

subsection \<open>C4: no contours\<close>

text \<open>
  What C4 says holds for \<^verbatim>\<open>c++.cpp\<close>: for the empty list of contours its
  \<^verbatim>\<open>calculate_contour_metrics\<close> ends in a value, every field of which is zero, and
  divides by nothing.
\<close>

lemma calc_cpp_empty:
  "outcome (calculate_contour_metrics P []) =
     Inr \<lparr>area_original = 0, area_hull = 0, area_ratio = 0,
          circularity_original = 0, circularity_hull = 0, circularity_ratio = 0\<rparr> \<and>
   divisors (calculate_contour_metrics P []) = []"
  by (simp add: calculate_contour_metrics_def ret_def outcome_def divisors_def
      ContourMetrics0_def)

text \<open>
  C4 fails for \<^verbatim>\<open>speed.cpp\<close>. For the empty list of contours its
  \<^verbatim>\<open>calculate_contour_metrics\<close> (lines 30-34) returns the object \<^verbatim>\<open>results\<close> as it was
  default-initialised: no member was written, so the six doubles are not zero but
  unspecified. It divides by nothing and does not go wrong otherwise. \<^verbatim>\<open>Tbb.cpp\<close>
  (lines 35-39) has the same text.
\<close>

theorem C4_empty_contours_unassigned_metrics:
  "outcome (calculate_contour_metrics_speed P []) = Inr Indeterminate \<and>
   divisors (calculate_contour_metrics_speed P []) = [] \<and>
   outcome (calculate_contour_metrics_tbb P []) = Inr Indeterminate \<and>
   divisors (calculate_contour_metrics_tbb P []) = []"
  by (simp add: calculate_contour_metrics_speed_def calculate_contour_metrics_tbb_def
      ret_def outcome_def divisors_def)

subsection \<open>C5: the guard against degenerate contours\<close>

text \<open>
  C5 holds for \<^verbatim>\<open>c++.cpp\<close> and \<^verbatim>\<open>original-thread.cpp\<close> (lemmas \<open>calc_cpp_guard\<close>,
  \<open>calc_cpp_divisors_guarded\<close>, \<open>calc_cpp_never_faults\<close> and \<open>calc_thread_guard\<close>) and
  fails for \<^verbatim>\<open>Tbb.cpp\<close>, whose \<^verbatim>\<open>calculate_contour_metrics\<close> has no guard: for a contour
  of a single point, of area 0 and perimeter 0 under the primitives of the spec, its
  first division is the one by the perimeter 0; for a contour of two points, of area 0
  and perimeter 2, it divides by the two perimeters and then by the area 0. In both
  cases no metric is reported as zero.
\<close>

theorem C5_tbb_divides_by_zero:
  "outcome (calculate_contour_metrics_tbb cv [[(0,0)]]) = Inl DivisionByZero \<and>
   divisors (calculate_contour_metrics_tbb cv [[(0,0)]]) = [0] \<and>
   outcome (calculate_contour_metrics_tbb cv [[(0,0),(1,0)]]) = Inl DivisionByZero \<and>
   divisors (calculate_contour_metrics_tbb cv [[(0,0),(1,0)]]) = [2, 2, 0]"
proof -
  have a: "contourArea cv [(0,0)] = 0"
    by (simp add: cv_def cv_contourArea_def shoelace2_def closed_edges_def)
  have p: "arcLength cv [(0,0)] = 0"
    by (simp add: cv_def cv_arcLength_def closed_edges_def)
  have 1: "calculate_contour_metrics_tbb cv [[(0,0)]] = (Inl DivisionByZero, [0])"
    by (simp add: calculate_contour_metrics_tbb_def sel_single a p Let_def and_then_fsqrt
        and_then_fdiv_zero)
  have h: "convexHull cv [(0,0),(1,0)] = [(0,0),(1,0)]"
    by (simp add: cv_def cv_convexHull_def)
  have a2: "contourArea cv [(0,0),(1,0)] = 0"
    by (simp add: cv_def cv_contourArea_def shoelace2_def closed_edges_def)
  have p2: "arcLength cv [(0,0),(1,0)] = 2"
    by (simp add: cv_def cv_arcLength_def closed_edges_def)
  have 2: "calculate_contour_metrics_tbb cv [[(0,0),(1,0)]] = (Inl DivisionByZero, [2, 2, 0])"
    by (simp add: calculate_contour_metrics_tbb_def sel_single h a2 p2 Let_def and_then_fsqrt
        and_then_fdiv and_then_fdiv_zero)
  from 1 2 show ?thesis by (simp add: outcome_def divisors_def)
qed

subsection \<open>C6: the contour-selection step\<close>

text \<open>
  C6. The selection step, on the list of contours extracted from a mask: with no
  contour it selects nothing (\<open>None\<close>, the \<^verbatim>\<open>end()\<close> iterator: the caller then
  produces its empty result); with exactly one contour it selects that contour; with
  any non-empty list it selects a member of the list whose area is at least the area
  of every contour of the list. This holds for every area function \<open>contourArea P\<close>.
\<close>

theorem C6_largest_contour_selection:
  "largest_contour P [] = None \<and>
   largest_contour P [c] = Some c \<and>
   (contours \<noteq> [] \<longrightarrow>
      (\<exists>cnt \<in> set contours. largest_contour P contours = Some cnt \<and>
         (\<forall>c' \<in> set contours. contourArea P c' \<le> contourArea P cnt)))"
proof (intro conjI impI)
  show "largest_contour P [] = None"
    by (simp add: largest_contour_def max_element_def)
  show "largest_contour P [c] = Some c"
    by (simp add: largest_contour_def max_element_def)
next
  assume ne: "contours \<noteq> []"
  then obtain x rest where xs: "contours = x # rest"
    by (cases contours) auto
  let ?m = "max_element_from (\<lambda>a b. contourArea P a < contourArea P b) x rest"
  have sel: "largest_contour P contours = Some ?m"
    by (simp add: largest_contour_def max_element_def xs)
  have mem: "?m \<in> set contours"
    using max_element_from_mem [of _ x rest] by (simp add: xs)
  have ge: "\<forall>c' \<in> set contours. contourArea P c' \<le> contourArea P ?m"
    using max_element_from_ge [of "contourArea P" x rest] by (simp add: xs)
  from sel mem ge
  show "\<exists>cnt \<in> set contours. largest_contour P contours = Some cnt \<and>
          (\<forall>c' \<in> set contours. contourArea P c' \<le> contourArea P cnt)"
    by blast
qed

text \<open>
  The theorem at two triangles, under the shoelace area: the larger one, second in the
  list, is selected.
\<close>

theorem C6_largest_contour_selection_witness:
  "[[(0,0),(1,0),(0,1)], [(0,0),(2,0),(0,2)]] \<noteq> ([] :: contour list) \<and>
   largest_contour cv [[(0,0),(1,0),(0,1)], [(0,0),(2,0),(0,2)]] = Some [(0,0),(2,0),(0,2)] \<and>
   contourArea cv [(0,0),(1,0),(0,1)] \<le> contourArea cv [(0,0),(2,0),(0,2)] \<and>
   largest_contour cv [] = None \<and>
   largest_contour cv [[(0,0),(1,0),(0,1)]] = Some [(0,0),(1,0),(0,1)]"
proof -
  let ?cs = "[[(0,0),(1,0),(0,1)], [(0,0),(2,0),(0,2)]] :: contour list"
  have ne: "?cs \<noteq> []" by simp
  from C6_largest_contour_selection [of cv "[(0,0),(1,0),(0,1)]" ?cs] ne
  obtain cnt where cnt: "largest_contour cv ?cs = Some cnt"
    and ge: "\<forall>c' \<in> set ?cs. contourArea cv c' \<le> contourArea cv cnt"
    and nil: "largest_contour cv [] = None"
    and one: "largest_contour cv [[(0,0),(1,0),(0,1)]] = Some [(0,0),(1,0),(0,1)]"
    by blast
  have sel: "largest_contour cv ?cs = Some [(0,0),(2,0),(0,2)]"
    by (simp add: largest_contour_def max_element_def cv_def cv_contourArea_def
        shoelace2_def closed_edges_def)
  with cnt have "cnt = [(0,0),(2,0),(0,2)]" by simp
  with ge sel ne nil one show ?thesis by simp
qed

subsection \<open>C7: a frame that cannot be loaded\<close>

text \<open>
  C7 fails on the code. In \<^verbatim>\<open>ypc.cpp\<close>, \<^verbatim>\<open>worker_load\<close> pushes the image of every path,
  also the empty one of a file that cannot be read, and \<^verbatim>\<open>worker_process\<close> takes the
  first empty image for the end of the stream: of the two files below the first is
  unreadable, it enters the queue, and the second, readable one is left in the queue,
  never processed. In \<^verbatim>\<open>speed.cpp\<close> the failure is printed, and the time and the
  (zero) metrics of the unreadable file are appended to the two vectors all the same.
\<close>

theorem C7_load_failure_ends_stream:
  "worker_load (\<lambda>p. if p = ''imgs/good.tiff'' then [[255]] else [])
      [''imgs/bad.tiff'', ''imgs/good.tiff''] [] =
     [\<lparr>image = [], name = ''bad.tiff''\<rparr>, \<lparr>image = [[255]], name = ''good.tiff''\<rparr>, Sentinel] \<and>
   worker_process process_image
      [\<lparr>image = [], name = ''bad.tiff''\<rparr>, \<lparr>image = [[255]], name = ''good.tiff''\<rparr>, Sentinel]
      [] Sentinel =
     Some ([\<lparr>image = [[255]], name = ''good.tiff''\<rparr>, Sentinel], [Sentinel]) \<and>
   process_files P
      [\<lparr>file_name = ''imgs/bad.tiff'', pixels = [], found = [], elapsed = 5, stale = 0\<rparr>] =
     \<lparr>cout = [''Error: Unable to read image: imgs/bad.tiff''],
      processing_times = [5],
      results_list = [Inr (Value ContourMetricsHull0)]\<rparr>"
  by (simp add: push_def load_image_def filename_def pop_eq Mat_empty_def
      process_files_def process_file_def process_image_speed_def ret_def outcome_def)

subsection \<open>C8: the aggregates of a run\<close>

text \<open>
  What C8 says holds for a run over at least one file, in each of which a contour is
  found (so that its processing records a time) and whose times are positive, in
  whatever order the worker pops the files: \<^verbatim>\<open>thread_main\<close> of \<^verbatim>\<open>original-thread.cpp\<close> reports as mean the
  sum of the times divided by the number of files, as maximum the greatest time, and
  as its image the name of a file that took that time; \<^verbatim>\<open>run_experiment\<close> of
  \<^verbatim>\<open>c++.cpp\<close>, which keeps no name, reports the same maximum and mean.
\<close>

lemma aggregation_of_recorded_times:
  assumes ne: "image_queue \<noteq> []"
    and ok: "\<forall>f \<in> set image_queue. found f \<noteq> [] \<and> 0 < elapsed f"
  shows "Average_processtime (thread_main P image0 image_queue) =
           Inr (sum_list (map elapsed image_queue) / real (length image_queue)) \<and>
         max_time (thread_main P image0 image_queue) = Max (elapsed ` set image_queue) \<and>
         (\<exists>f \<in> set image_queue.
            max_time_image (thread_main P image0 image_queue) = file_name f \<and>
            elapsed f = max_time (thread_main P image0 image_queue)) \<and>
         run_experiment P image_queue =
           Inr (Max (elapsed ` set image_queue),
                sum_list (map elapsed image_queue) / real (length image_queue))"
proof -
  let ?init = "\<lparr>totaltime_c = 0, max_processing_time = 0, max_processing_time_image = image0,
               numbersum = 0, number_of_images = 0\<rparr>"
  let ?st = "foldl (thread_step P) ?init image_queue"
  let ?M = "Max (elapsed ` set image_queue)"
  have found: "\<forall>f \<in> set image_queue. found f \<noteq> []" using ok by simp
  have fin: "finite (elapsed ` set image_queue)" "elapsed ` set image_queue \<noteq> {}"
    using ne by simp_all
  have Mpos: "0 < ?M"
  proof -
    obtain f where "f \<in> set image_queue" using ne by (cases image_queue) auto
    then have "0 < elapsed f" "elapsed f \<le> ?M" using ok fin by simp_all
    then show ?thesis by simp
  qed
  have len: "real (length image_queue) \<noteq> 0" using ne by simp
  have tot: "totaltime_c ?st = sum_list (map elapsed image_queue)"
    using thread_fold_sum [OF found, of P ?init] by simp
  have num: "number_of_images ?st = real (length image_queue)"
    using thread_fold_number [OF found ne, of P ?init] by simp
  have mx: "max_processing_time ?st = ?M"
    using thread_fold_max [OF found, of P ?init] fin Mpos by (simp add: max_def)
  have img: "\<exists>f \<in> set image_queue. max_processing_time_image ?st = file_name f \<and>
               elapsed f = max_processing_time ?st"
    using thread_fold_image [OF found, of P ?init] mx Mpos by auto
  have avg: "Average_processtime (thread_main P image0 image_queue) =
           Inr (sum_list (map elapsed image_queue) / real (length image_queue))"
    using len by (simp add: thread_main_def Let_def tot num outcome_def fdiv_def)
  have tm: "max_time (thread_main P image0 image_queue) = ?M"
    by (simp add: thread_main_def Let_def mx)
  have ti: "\<exists>f \<in> set image_queue.
            max_time_image (thread_main P image0 image_queue) = file_name f \<and>
            elapsed f = max_time (thread_main P image0 image_queue)"
    using img by (simp add: thread_main_def Let_def)
  let ?zero = "\<lparr>average_time = 0, number = 0, max_process_time = 0\<rparr>"
  let ?agg = "foldl (worker_step P) ?zero image_queue"
  have same: "map (\<lambda>f. if found f = [] then stale f else elapsed f) image_queue = map elapsed image_queue"
    using found by (intro map_cong) auto
  have same_img: "(\<lambda>f. if found f = [] then stale f else elapsed f) ` set image_queue = elapsed ` set image_queue"
    using found by (intro image_cong) auto
  have csum: "average_time ?agg = sum_list (map elapsed image_queue)"
    using worker_fold_sum [of P ?zero image_queue] by (simp add: same)
  have cnum: "number ?agg = int (length image_queue)"
    using worker_fold_number [of P ?zero image_queue] by simp
  have cmax: "max_process_time ?agg = ?M"
  proof -
    have "max_process_time ?agg = Max (insert 0 (elapsed ` set image_queue))"
      using worker_fold_max [of P ?zero image_queue] unfolding same_img by simp
    then show ?thesis using fin Mpos by (simp add: max_def)
  qed
  have run: "run_experiment P image_queue =
           Inr (?M, sum_list (map elapsed image_queue) / real (length image_queue))"
    using len by (simp add: run_experiment_def Let_def csum cnum cmax outcome_def fdiv_def)
  from avg tm ti run show ?thesis by blast
qed

text \<open>
  The scenario of the claim, by the lemma: three files with the times 10, 30 and 20,
  in each of the six orders. The mean is 20, the maximum 30, and its image the file
  that took 30.
\<close>

lemma aggregation_scenario:
  "thread_main cv '''' [scenario_frame ''a'' 10, scenario_frame ''b'' 30, scenario_frame ''c'' 20] =
     \<lparr>Average_processtime = Inr 20, max_time = 30, max_time_image = ''b''\<rparr> \<and>
   thread_main cv '''' [scenario_frame ''a'' 10, scenario_frame ''c'' 20, scenario_frame ''b'' 30] =
     \<lparr>Average_processtime = Inr 20, max_time = 30, max_time_image = ''b''\<rparr> \<and>
   thread_main cv '''' [scenario_frame ''b'' 30, scenario_frame ''a'' 10, scenario_frame ''c'' 20] =
     \<lparr>Average_processtime = Inr 20, max_time = 30, max_time_image = ''b''\<rparr> \<and>
   thread_main cv '''' [scenario_frame ''b'' 30, scenario_frame ''c'' 20, scenario_frame ''a'' 10] =
     \<lparr>Average_processtime = Inr 20, max_time = 30, max_time_image = ''b''\<rparr> \<and>
   thread_main cv '''' [scenario_frame ''c'' 20, scenario_frame ''a'' 10, scenario_frame ''b'' 30] =
     \<lparr>Average_processtime = Inr 20, max_time = 30, max_time_image = ''b''\<rparr> \<and>
   thread_main cv '''' [scenario_frame ''c'' 20, scenario_frame ''b'' 30, scenario_frame ''a'' 10] =
     \<lparr>Average_processtime = Inr 20, max_time = 30, max_time_image = ''b''\<rparr> \<and>
   run_experiment cv [scenario_frame ''a'' 10, scenario_frame ''b'' 30, scenario_frame ''c'' 20] =
     Inr (30, 20) \<and>
   run_experiment cv [scenario_frame ''c'' 20, scenario_frame ''b'' 30, scenario_frame ''a'' 10] =
     Inr (30, 20)"
proof -
  let ?a = "scenario_frame ''a'' 10" and ?b = "scenario_frame ''b'' 30"
    and ?c = "scenario_frame ''c'' 20"
  have facts: "found ?a \<noteq> [] \<and> 0 < elapsed ?a" "found ?b \<noteq> [] \<and> 0 < elapsed ?b"
    "found ?c \<noteq> [] \<and> 0 < elapsed ?c"
    "elapsed ?a = 10" "elapsed ?b = 30" "elapsed ?c = 20"
    "file_name ?a = ''a''" "file_name ?b = ''b''" "file_name ?c = ''c''"
    by (simp_all add: scenario_frame_def)
  have 1: "thread_main cv '''' [?a, ?b, ?c] =
     \<lparr>Average_processtime = Inr 20, max_time = 30, max_time_image = ''b''\<rparr>"
    using aggregation_of_recorded_times [of "[?a, ?b, ?c]" cv "''''"]
    by (intro report_eqI) (auto simp: facts)
  have 2: "thread_main cv '''' [?a, ?c, ?b] =
     \<lparr>Average_processtime = Inr 20, max_time = 30, max_time_image = ''b''\<rparr>"
    using aggregation_of_recorded_times [of "[?a, ?c, ?b]" cv "''''"]
    by (intro report_eqI) (auto simp: facts)
  have 3: "thread_main cv '''' [?b, ?a, ?c] =
     \<lparr>Average_processtime = Inr 20, max_time = 30, max_time_image = ''b''\<rparr>"
    using aggregation_of_recorded_times [of "[?b, ?a, ?c]" cv "''''"]
    by (intro report_eqI) (auto simp: facts)
  have 4: "thread_main cv '''' [?b, ?c, ?a] =
     \<lparr>Average_processtime = Inr 20, max_time = 30, max_time_image = ''b''\<rparr>"
    using aggregation_of_recorded_times [of "[?b, ?c, ?a]" cv "''''"]
    by (intro report_eqI) (auto simp: facts)
  have 5: "thread_main cv '''' [?c, ?a, ?b] =
     \<lparr>Average_processtime = Inr 20, max_time = 30, max_time_image = ''b''\<rparr>"
    using aggregation_of_recorded_times [of "[?c, ?a, ?b]" cv "''''"]
    by (intro report_eqI) (auto simp: facts)
  have 6: "thread_main cv '''' [?c, ?b, ?a] =
     \<lparr>Average_processtime = Inr 20, max_time = 30, max_time_image = ''b''\<rparr>"
    using aggregation_of_recorded_times [of "[?c, ?b, ?a]" cv "''''"]
    by (intro report_eqI) (auto simp: facts)
  have 7: "run_experiment cv [?a, ?b, ?c] = Inr (30, 20)"
    using aggregation_of_recorded_times [of "[?a, ?b, ?c]" cv "''''"] by (simp add: facts)
  have 8: "run_experiment cv [?c, ?b, ?a] = Inr (30, 20)"
    using aggregation_of_recorded_times [of "[?c, ?b, ?a]" cv "''''"] by (simp add: facts)
  from 1 2 3 4 5 6 7 8 show ?thesis by blast
qed

text \<open>
  C8 fails on the code in its general half, for a run with a file in which no contour
  is found. Such a file records no time: \<^verbatim>\<open>process_image_origin\<close> and
  \<^verbatim>\<open>process_single_image\<close> return before they assign the duration. The worker adds its
  time variable all the same, with the content it was declared with (here 100). After
  a file that took 10 and such a file, \<^verbatim>\<open>thread_main\<close> reports the mean 110 over a
  count of 1 and the maximum 100 with the name of the file without contours, and
  \<^verbatim>\<open>run_experiment\<close> the maximum 100 and the mean 55; the one recorded time is 10.
\<close>

theorem C8_unrecorded_time_in_aggregates:
  "thread_main P ''''
      [scenario_frame ''a'' 10, (scenario_frame ''blank'' 3)\<lparr>found := [], stale := 100\<rparr>] =
     \<lparr>Average_processtime = Inr 110, max_time = 100, max_time_image = ''blank''\<rparr> \<and>
   run_experiment P
      [scenario_frame ''a'' 10, (scenario_frame ''blank'' 3)\<lparr>found := [], stale := 100\<rparr>] =
     Inr (100, 55)"
proof -
  let ?a = "scenario_frame ''a'' 10"
  let ?blank = "(scenario_frame ''blank'' 3)\<lparr>found := [], stale := 100\<rparr>"
  have a: "found ?a \<noteq> []" by (simp add: scenario_frame_def)
  have first: "thread_step P
      \<lparr>totaltime_c = 0, max_processing_time = 0, max_processing_time_image = '''',
       numbersum = 0, number_of_images = 0\<rparr> ?a =
      \<lparr>totaltime_c = 10, max_processing_time = 10, max_processing_time_image = ''a'',
       numbersum = 1, number_of_images = 1\<rparr>"
    by (simp add: thread_step_some [OF a]) (simp add: scenario_frame_def)
  have second: "thread_step P
      \<lparr>totaltime_c = 10, max_processing_time = 10, max_processing_time_image = ''a'',
       numbersum = 1, number_of_images = 1\<rparr> ?blank =
      \<lparr>totaltime_c = 110, max_processing_time = 100, max_processing_time_image = ''blank'',
       numbersum = 1, number_of_images = 1\<rparr>"
    by (simp add: thread_step_def process_image_origin_def Let_def scenario_frame_def)
  have thread: "thread_main P '''' [?a, ?blank] =
     \<lparr>Average_processtime = Inr 110, max_time = 100, max_time_image = ''blank''\<rparr>"
    by (simp add: thread_main_def Let_def first second outcome_def fdiv_def)
  have run: "run_experiment P [?a, ?blank] = Inr (100, 55)"
    by (simp add: run_experiment_def worker_step_eq scenario_frame_def outcome_def fdiv_def)
  from thread run show ?thesis by blast
qed

subsection \<open>C10: the time of a frame without contours\<close>

text \<open>
  C10. When no contour is found for a file, \<^verbatim>\<open>process_single_image\<close> of \<^verbatim>\<open>c++.cpp\<close>
  returns with \<^verbatim>\<open>metrics\<close> and \<^verbatim>\<open>duration\<close> as they were passed in, and the worker still
  adds its time variable, which holds the unspecified content \<open>stale f\<close> it was
  declared with, to the sum, and increments the count. So after any run the count is
  the number of files, and the sum holds, for each file without a contour, that
  never-assigned content in place of a measured time.
\<close>

theorem C10_unassigned_time_is_aggregated:
  "(found f = [] \<longrightarrow>
      process_single_image P f (contours, metrics, duration) = ([], metrics, duration) \<and>
      worker_step P agg f =
        agg\<lparr>average_time := average_time agg + stale f,
            max_process_time :=
              (if stale f > max_process_time agg then stale f else max_process_time agg),
            number := number agg + 1\<rparr>) \<and>
   number (foldl (worker_step P) agg image_queue) = number agg + int (length image_queue) \<and>
   average_time (foldl (worker_step P) agg image_queue) =
     average_time agg + (\<Sum>g\<leftarrow>image_queue. if found g = [] then stale g else elapsed g)"
proof (intro conjI impI)
  assume none: "found f = []"
  show "process_single_image P f (contours, metrics, duration) = ([], metrics, duration)"
    using none by (rule process_single_image_none)
  show "worker_step P agg f =
        agg\<lparr>average_time := average_time agg + stale f,
            max_process_time :=
              (if stale f > max_process_time agg then stale f else max_process_time agg),
            number := number agg + 1\<rparr>"
    using none by (simp add: worker_step_eq)
next
  show "number (foldl (worker_step P) agg image_queue) = number agg + int (length image_queue)"
    by (rule worker_fold_number)
  show "average_time (foldl (worker_step P) agg image_queue) =
     average_time agg + (\<Sum>g\<leftarrow>image_queue. if found g = [] then stale g else elapsed g)"
    by (rule worker_fold_sum)
qed

text \<open>
  The theorem at a file without contours whose time variable holds 7: the sum grows
  by 7 and the count by one; a run over a file that takes 10 and this file reports the
  mean \<open>17 / 2\<close>.
\<close>

theorem C10_unassigned_time_is_aggregated_witness:
  "found ((scenario_frame ''blank'' 3)\<lparr>found := [], stale := 7\<rparr>) = [] \<and>
   process_single_image cv ((scenario_frame ''blank'' 3)\<lparr>found := [], stale := 7\<rparr>)
       ([], Inr ContourMetrics0, 7) = ([], Inr ContourMetrics0, 7) \<and>
   worker_step cv \<lparr>average_time = 10, number = 1, max_process_time = 10\<rparr>
       ((scenario_frame ''blank'' 3)\<lparr>found := [], stale := 7\<rparr>) =
     \<lparr>average_time = 17, number = 2, max_process_time = 10\<rparr> \<and>
   run_experiment cv
       [scenario_frame ''a'' 10, (scenario_frame ''blank'' 3)\<lparr>found := [], stale := 7\<rparr>] =
     Inr (10, 17 / 2)"
proof -
  let ?f = "(scenario_frame ''blank'' 3)\<lparr>found := [], stale := 7\<rparr>"
  have e: "found ?f = []" by simp
  have s: "stale ?f = 7" by simp
  note inst = C10_unassigned_time_is_aggregated
    [of ?f cv "[]" "Inr ContourMetrics0" 7 "\<lparr>average_time = 10, number = 1, max_process_time = 10\<rparr>" "[]"]
  from inst e have 1: "process_single_image cv ?f ([], Inr ContourMetrics0, 7) = ([], Inr ContourMetrics0, 7)"
    by blast
  from inst e have "worker_step cv \<lparr>average_time = 10, number = 1, max_process_time = 10\<rparr> ?f =
     \<lparr>average_time = 10, number = 1, max_process_time = 10\<rparr>
       \<lparr>average_time := average_time \<lparr>average_time = 10, number = 1, max_process_time = 10\<rparr> + stale ?f,
            max_process_time :=
              (if stale ?f > max_process_time \<lparr>average_time = 10, number = 1, max_process_time = 10\<rparr>
               then stale ?f else max_process_time \<lparr>average_time = 10, number = 1, max_process_time = 10\<rparr>),
            number := number \<lparr>average_time = 10, number = 1, max_process_time = 10\<rparr> + 1\<rparr>"
    by blast
  then have 2: "worker_step cv \<lparr>average_time = 10, number = 1, max_process_time = 10\<rparr> ?f =
     \<lparr>average_time = 17, number = 2, max_process_time = 10\<rparr>"
    by (simp add: s)
  have 3: "run_experiment cv [scenario_frame ''a'' 10, ?f] = Inr (10, 17 / 2)"
    by (simp add: run_experiment_def worker_step_eq scenario_frame_def outcome_def fdiv_def)
  from e 1 2 3 show ?thesis by blast
qed

end
